theory Spec2Isabelle
  imports Complex_Main
begin

section \<open>Event dispatch and command routing of pymino (\<open>pymino/ext/context.py\<close>)\<close>

text \<open>
  A shallow embedding of the dispatch engine of \<open>context.py\<close>: the parameter resolver
  (\<open>_set_parameters\<close>), the command router (\<open>_handle_command\<close>, \<open>_check_cooldown\<close>),
  the dispatcher (\<open>_handle_event\<close>, \<open>_handle_all_events\<close>, \<open>emit\<close>), the recording
  of replies (\<open>_add_cache\<close>) and the reply-wait primitive (\<open>Context.wait_for_message\<close>).
  Python's leading underscores are dropped, since an Isabelle name starts with a letter.

  Mutation is explicit state passing, an exception is the \<open>Inl\<close> of a sum, and what the
  engine does to the outside (a reply sent through the session, a call of a registered
  handler) is appended to a trace kept in the state.
\<close>

subsection \<open>Exceptions\<close>

text \<open>
  The exceptions that the modelled code raises or lets through. \<open>Failure\<close> stands for any
  other exception that a handler written by the bot author raises.
\<close>

datatype exn =
    KeyError
  | AttributeError
  | TypeError
  | IntentsNotEnabled
  | NotFound
  | Failure string

subsection \<open>Entities\<close>

text \<open>
  The entity classes (\<open>from .entities import *\<close>) are consumed as plain data. A message may
  lack its content or its author: reading an attribute of a missing author is Python's
  \<open>AttributeError\<close>.
\<close>

record MessageAuthor =
  userId :: string
  username :: string

record Message =
  content :: "string option"
  chatId :: string
  author :: "MessageAuthor option"

text \<open>\<open>Context.__init__\<close>: the flag and the triggering message (the session is left out).\<close>

record Context =
  intents :: bool
  message :: Message

text \<open>
  The property \<open>Context.author\<close>: \<open>self.message.author\<close>, and \<open>None\<close> where that
  raises \<open>AttributeError\<close> (\<open>with suppress(AttributeError)\<close>).
\<close>

definition Context_author :: "Context \<Rightarrow> MessageAuthor option" where
  "Context_author context = author (message context)"

subsection \<open>Handlers, arguments and observable effects\<close>

text \<open>
  A registered callable is known to the engine by its signature
  (\<open>inspect_signature(func).parameters\<close>, the declared names in order) and by whether a
  call of it returns or raises. The name identifies the function. What the body of a
  handler does on its own (sending a message, waiting for a reply) is outside the engine:
  a call is one effect, and it does not change the registries.
\<close>

record Handler =
  handler_name :: string
  parameters :: "string list"
  raises :: "exn option"

datatype arg =
    Arg_context Context
  | Arg_member MessageAuthor
  | Arg_str string
  | Arg_data Message
  | Arg_none

subsection \<open>The command table\<close>

record Command =
  name :: string
  description :: "string option"
  usage :: "string option"
  aliases :: "string list"
  cooldown :: int
  func :: Handler

text \<open>
  What \<open>context.reply\<close> is given: a text, or the value of \<open>Commands.__help__()\<close>. The
  renderer of the help listing is not part of \<open>context.py\<close>, so the listing is kept
  symbolic: the listing rendered from the given table.
\<close>

datatype reply_content =
    Text string
  | Help_listing "Command list"

datatype effect =
    Reply reply_content
  | Call Handler "arg list"

text \<open>
  Modelled from the spec: the class \<open>Commands\<close> of \<open>utilities/commands.py\<close>, which
  \<open>context.py\<close> imports and which is not among the sources. The table holds the registered
  entries, the most recent registration first, and the cooldown records, keyed by
  (command name, userId), each an absolute expiry time.
\<close>

record Commands =
  table :: "Command list"
  cooldowns :: "(string \<times> string) \<rightharpoonup> real"

text \<open>
  Modelled from the spec: \<open>addCommand\<close> inserts by canonical name (a later registration
  of the same name replaces the earlier one).
\<close>

definition add_command :: "Commands \<Rightarrow> Command \<Rightarrow> Commands" where
  "add_command cs c = cs\<lparr>table := c # filter (\<lambda>d. name d \<noteq> name c) (table cs)\<rparr>"

text \<open>Modelled from the spec: \<open>__command_names__()\<close>, the canonical names.\<close>

definition command_names :: "Commands \<Rightarrow> string list" where
  "command_names cs = map name (table cs)"

text \<open>
  Modelled from the spec: \<open>__command_aliases__()\<close>, the secondary lookup from an alias to
  the canonical name of the command that owns it (on a collision the last write wins).
\<close>

definition command_aliases :: "Commands \<Rightarrow> (string \<times> string) list" where
  "command_aliases cs = concat (map (\<lambda>c. map (\<lambda>a. (a, name c)) (aliases c)) (table cs))"

text \<open>
  Modelled from the spec: \<open>fetch\<close> fails with NotFound when the name is neither a
  canonical name nor an alias.
\<close>

definition fetch_command :: "Commands \<Rightarrow> string \<Rightarrow> exn + Command" where
  "fetch_command cs command_name =
     (case find (\<lambda>c. name c = command_name) (table cs) of
        Some c \<Rightarrow> Inr c
      | None \<Rightarrow>
          (case map_of (command_aliases cs) command_name of
             None \<Rightarrow> Inl NotFound
           | Some canonical \<Rightarrow>
               (case find (\<lambda>c. name c = canonical) (table cs) of
                  Some c \<Rightarrow> Inr c
                | None \<Rightarrow> Inl NotFound)))"

text \<open>
  Modelled from the spec: \<open>setCooldown\<close> records expiry = now + seconds. The last argument
  is the reading of the clock that the call takes.
\<close>

definition set_cooldown :: "Commands \<Rightarrow> string \<Rightarrow> int \<Rightarrow> string \<Rightarrow> real \<Rightarrow> Commands" where
  "set_cooldown cs command_name seconds uid now =
     cs\<lparr>cooldowns := (cooldowns cs)((command_name, uid) \<mapsto> now + of_int seconds)\<rparr>"

text \<open>
  Modelled from the spec: the cooldown record of (command name, userId) is an expiry
  timestamp, and an absent record reads as 0. \<open>_check_cooldown\<close> compares the value with
  \<open>time()\<close> and subtracts \<open>time()\<close> from it, so \<open>fetch_cooldown\<close> returns the stored
  expiry itself; the spec's \<open>cooldownRemaining\<close> is this value minus the clock, cut at 0.
\<close>

definition fetch_cooldown :: "Commands \<Rightarrow> string \<Rightarrow> string \<Rightarrow> real" where
  "fetch_cooldown cs command_name uid =
     (case cooldowns cs (command_name, uid) of None \<Rightarrow> 0 | Some expiry \<Rightarrow> expiry)"

subsection \<open>The reply-wait cache\<close>

text \<open>
  \<open>Cache("cache")\<close> of the library diskcache: both \<open>EventHandler.__init__\<close> and every call
  of \<open>wait_for_message\<close> open the same directory, so there is one shared store. A stored
  item is a value with its expiry time. The three methods the code calls, after the
  library's interface:
  \<^item> \<open>get(key)\<close> returns the stored value, and \<open>None\<close> for a key that is absent or expired;
  \<^item> \<open>add(key, value, expire)\<close> stores the value, expiring \<open>expire\<close> seconds from now, only
    if the key is not present;
  \<^item> \<open>clear(retry=False)\<close> removes all items of the cache. It has no key parameter: the
    string that the code passes is taken as the flag \<open>retry\<close>.
\<close>

type_synonym Cache = "string \<rightharpoonup> (string \<times> real)"

definition Cache_get :: "Cache \<Rightarrow> string \<Rightarrow> real \<Rightarrow> string option" where
  "Cache_get cache key now =
     (case cache key of
        None \<Rightarrow> None
      | Some (v, expire_time) \<Rightarrow> if now < expire_time then Some v else None)"

definition Cache_add :: "Cache \<Rightarrow> string \<Rightarrow> string \<Rightarrow> real \<Rightarrow> real \<Rightarrow> Cache" where
  "Cache_add cache key v expire now =
     (if Cache_get cache key now \<noteq> None then cache else cache(key \<mapsto> (v, now + expire)))"

definition Cache_clear :: "Cache \<Rightarrow> string \<Rightarrow> Cache" where
  "Cache_clear cache retry = Map.empty"

text \<open>The key \<open>f"{chatId}_{userId}"\<close>.\<close>

definition cache_key :: "string \<Rightarrow> string \<Rightarrow> string" where
  "cache_key chat uid = chat @ ''_'' @ uid"

subsection \<open>The state of the event handler\<close>

text \<open>
  The attributes of \<open>EventHandler\<close> (\<open>_events\<close>, \<open>_wait_for\<close>, \<open>_commands\<close>, the prefix and the
  flag \<open>self.intents\<close>, here \<open>handler_intents\<close>), and two additions: the trace of
  effects, and the order in which Python iterates the set literal
  \<open>{"text_message", "_console_text_message"}\<close>. That order depends on the hashing of
  strings and is fixed for a process: \<open>console_first\<close> says that the console's name comes
  first.
\<close>

record EventHandler =
  command_prefix :: string
  events :: "string \<rightharpoonup> Handler"
  wait_for :: Cache
  commands :: Commands
  handler_intents :: bool
  console_first :: bool
  trace :: "effect list"

type_synonym 'a outcome = "(exn + 'a) \<times> EventHandler"

text \<open>
  The readings of \<open>time()\<close> that the dispatch of one event takes, named by the place that
  takes them: inside \<open>Cache.get\<close> and \<open>Cache.add\<close> of \<open>_add_cache\<close>, in the comparison and
  in the message of \<open>_check_cooldown\<close>, and inside \<open>set_cooldown\<close>. A reading is a number
  of seconds, taken as a real number; nothing relates the readings to each other.
\<close>

record Clock =
  at_get :: real
  at_add :: real
  at_check :: real
  at_reply :: real
  at_set :: real

text \<open>A call of a registered function: it is recorded, then it returns or raises.\<close>

definition invoke :: "Handler \<Rightarrow> arg list \<Rightarrow> EventHandler \<Rightarrow> unit outcome" where
  "invoke f args w =
     ((case raises f of None \<Rightarrow> Inr () | Some e \<Rightarrow> Inl e),
      w\<lparr>trace := trace w @ [Call f args]\<rparr>)"

text \<open>\<open>context.reply(content)\<close>: one request through the session.\<close>

definition reply :: "EventHandler \<Rightarrow> reply_content \<Rightarrow> unit outcome" where
  "reply w c = (Inr (), w\<lparr>trace := trace w @ [Reply c]\<rparr>)"

subsection \<open>Python's \<open>int\<close> and \<open>str\<close> on numbers\<close>

definition py_int :: "real \<Rightarrow> int" where
  "py_int x = (if 0 \<le> x then \<lfloor>x\<rfloor> else \<lceil>x\<rceil>)"

fun str_nat :: "nat \<Rightarrow> string" where
  "str_nat n =
     (if n < 10 then [''0123456789'' ! n]
      else str_nat (n div 10) @ [''0123456789'' ! (n mod 10)])"

declare str_nat.simps [simp del]

definition str_int :: "int \<Rightarrow> string" where
  "str_int i = (if i < 0 then ''-'' @ str_nat (nat (- i)) else str_nat (nat i))"

subsection \<open>The parameter resolver\<close>

text \<open>
  \<open>_set_parameters(context, func, message)\<close>. The third argument is \<open>Some s\<close> for a string
  and \<open>None\<close> for anything that fails \<open>isinstance(message, str)\<close> (the default \<open>None\<close>, or
  the event data that \<open>_handle_all_events\<close> passes). The three \<open>try\<close> blocks turn a missing
  content or author into \<open>None\<close>; \<open>Member(context.author.json())\<close> stands outside them.
\<close>

definition potential_parameters ::
  "Context \<Rightarrow> MessageAuthor \<Rightarrow> string option \<Rightarrow> string option \<Rightarrow> string option
    \<Rightarrow> (string \<times> arg) list" where
  "potential_parameters context member text uname uid =
     [(''ctx'', Arg_context context),
      (''member'', Arg_member member),
      (''message'', case text of None \<Rightarrow> Arg_none | Some s \<Rightarrow> Arg_str s),
      (''username'', case uname of None \<Rightarrow> Arg_none | Some s \<Rightarrow> Arg_str s),
      (''userId'', case uid of None \<Rightarrow> Arg_none | Some s \<Rightarrow> Arg_str s)]"

definition set_parameters :: "Context \<Rightarrow> Handler \<Rightarrow> string option \<Rightarrow> exn + arg list" where
  "set_parameters context f override =
     (let text = (case override of Some s \<Rightarrow> Some s | None \<Rightarrow> content (message context));
          uname = map_option username (Context_author context);
          uid = map_option userId (Context_author context)
      in case Context_author context of
           None \<Rightarrow> Inl AttributeError
         | Some a \<Rightarrow>
             Inr (map (\<lambda>parameter.
                         case map_of (potential_parameters context a text uname uid) parameter of
                           None \<Rightarrow> Arg_none
                         | Some v \<Rightarrow> v)
                      (parameters f)))"

subsection \<open>The registry\<close>

text \<open>\<open>emit(name, *args)\<close>: the handler gets the arguments as they are.\<close>

definition emit :: "EventHandler \<Rightarrow> string \<Rightarrow> arg list \<Rightarrow> unit outcome" where
  "emit w event args =
     (case events w event of None \<Rightarrow> (Inr (), w) | Some f \<Rightarrow> invoke f args w)"

text \<open>\<open>on_error()\<close>, \<open>on_text_message()\<close> and the other decorators: the last registration wins.\<close>

definition register :: "EventHandler \<Rightarrow> string \<Rightarrow> Handler \<Rightarrow> EventHandler" where
  "register w event f = w\<lparr>events := (events w)(event \<mapsto> f)\<rparr>"


definition on_text_message :: "EventHandler \<Rightarrow> Handler \<Rightarrow> EventHandler" where
  "on_text_message w f = register w ''text_message'' f"

definition console_on_text_message :: "EventHandler \<Rightarrow> Handler \<Rightarrow> EventHandler" where
  "console_on_text_message w f = register w ''_console_text_message'' f"

text \<open>\<open>command_exists\<close>: a canonical name or an alias.\<close>

definition command_exists :: "EventHandler \<Rightarrow> string \<Rightarrow> bool" where
  "command_exists w command_name =
     (command_name \<in> set (command_names (commands w))
      \<or> command_name \<in> set (map fst (command_aliases (commands w))))"

text \<open>\<open>_add_cache\<close>: an entry that is there is cleared first, then the content is added.\<close>

definition add_cache :: "Clock \<Rightarrow> EventHandler \<Rightarrow> string \<Rightarrow> string \<Rightarrow> string \<Rightarrow> EventHandler" where
  "add_cache clock w chat uid text =
     (let key = cache_key chat uid;
          cleared = (if Cache_get (wait_for w) key (at_get clock) \<noteq> None
                     then Cache_clear (wait_for w) key else wait_for w)
      in w\<lparr>wait_for := Cache_add cleared key text 90 (at_add clock)\<rparr>)"

text \<open>
  \<open>func(*self._set_parameters(context, func, message))\<close>, as \<open>_handle_all_events\<close> and
  \<open>_handle_command\<close> both end: the arguments are resolved, then the function is called.
\<close>

definition call_with_parameters ::
  "Handler \<Rightarrow> Context \<Rightarrow> string option \<Rightarrow> EventHandler \<Rightarrow> unit outcome" where
  "call_with_parameters f context override w =
     (case set_parameters context f override of
        Inl e \<Rightarrow> (Inl e, w)
      | Inr args \<Rightarrow> invoke f args w)"

text \<open>\<open>_handle_all_events\<close>: \<open>self._events[event]\<close> raises \<open>KeyError\<close> for a missing slot.\<close>

definition handle_all_events ::
  "EventHandler \<Rightarrow> string \<Rightarrow> Message \<Rightarrow> Context \<Rightarrow> unit outcome" where
  "handle_all_events w event data context =
     (case events w event of
        None \<Rightarrow> (Inl KeyError, w)
      | Some f \<Rightarrow> call_with_parameters f context None w)"

text \<open>
  The loop \<open>for event in {"text_message", "_console_text_message"}\<close> of \<open>_handle_command\<close>,
  over the set in its iteration order; an exception ends it.
\<close>

fun forward :: "string list \<Rightarrow> EventHandler \<Rightarrow> Message \<Rightarrow> Context \<Rightarrow> unit outcome" where
  "forward [] w data context = (Inr (), w)"
| "forward (event # rest) w data context =
     (case handle_all_events w event data context of
        (Inl e, w') \<Rightarrow> (Inl e, w')
      | (Inr u, w') \<Rightarrow> forward rest w' data context)"

definition set_order :: "EventHandler \<Rightarrow> string list" where
  "set_order w =
     (if console_first w then [''_console_text_message'', ''text_message'']
      else [''text_message'', ''_console_text_message''])"

subsection \<open>The command router\<close>

text \<open>\<open>_check_cooldown\<close>: the response is 403 for a caller on cooldown and 200 otherwise.\<close>

definition check_cooldown ::
  "Clock \<Rightarrow> EventHandler \<Rightarrow> string \<Rightarrow> Message \<Rightarrow> Context \<Rightarrow> int outcome" where
  "check_cooldown clock w command_name data context =
     (case fetch_command (commands w) command_name of
        Inl e \<Rightarrow> (Inl e, w)
      | Inr c \<Rightarrow>
          if cooldown c > 0 then
            (case author data of
               None \<Rightarrow> (Inl AttributeError, w)
             | Some a \<Rightarrow>
                 if fetch_cooldown (commands w) command_name (userId a) > at_check clock then
                   (Inr 403,
                    snd (reply w (Text (''You are on cooldown for ''
                      @ str_int (py_int (fetch_cooldown (commands w) command_name (userId a)
                                          - at_reply clock))
                      @ '' seconds.''))))
                 else
                   (Inr 200,
                    w\<lparr>commands :=
                        set_cooldown (commands w) command_name (cooldown c) (userId a)
                          (at_set clock)\<rparr>))
          else (Inr 200, w))"

text \<open>
  \<open>_handle_command\<close>. \<open>split(" ")[0]\<close> is the text up to the first space character;
  slices are \<open>take\<close> and \<open>drop\<close>; subscripting a missing content is a \<open>TypeError\<close>.
\<close>

definition handle_command ::
  "Clock \<Rightarrow> EventHandler \<Rightarrow> Message \<Rightarrow> Context \<Rightarrow> unit outcome" where
  "handle_command clock w data context =
     (case content data of
        None \<Rightarrow> (Inl TypeError, w)
      | Some text \<Rightarrow>
          let prefix = command_prefix w;
              command_name = takeWhile (\<lambda>ch. ch \<noteq> CHR '' '') (drop (length prefix) text)
          in
          if \<not> command_exists w command_name \<or> prefix \<noteq> take (length prefix) text then
            if command_name = ''help'' \<and> text = prefix @ ''help'' then
              reply w (Help_listing (table (commands w)))
            else if events w ''text_message'' \<noteq> None
                    \<or> events w ''_console_text_message'' \<noteq> None then
              forward (set_order w) w data context
            else (Inr (), w)
          else if take (length prefix) text \<noteq> prefix then (Inr (), w)
          else
            let msg = drop (length prefix + length command_name + 1) text;
                canonical = (case map_of (command_aliases (commands w)) command_name of
                               Some c \<Rightarrow> c | None \<Rightarrow> command_name)
            in
            (case check_cooldown clock w canonical data context of
               (Inl e, w') \<Rightarrow> (Inl e, w')
             | (Inr response, w') \<Rightarrow>
                 if response \<noteq> 403 then
                   (case fetch_command (commands w') canonical of
                      Inl e \<Rightarrow> (Inl e, w')
                    | Inr c \<Rightarrow> call_with_parameters (func c) context (Some msg) w')
                 else (Inr (), w')))"

subsection \<open>The dispatcher\<close>

text \<open>\<open>with suppress(KeyError)\<close>: a \<open>KeyError\<close> ends the block, which then returns \<open>None\<close>.\<close>

definition suppress_KeyError :: "unit outcome \<Rightarrow> unit outcome" where
  "suppress_KeyError r = (case r of (Inl KeyError, w) \<Rightarrow> (Inr (), w) | other \<Rightarrow> other)"

text \<open>
  The second \<open>if\<close> of \<open>_handle_event\<close>: a registered event is called with the raw data
  for the four events whose payload is not a message, and through the parameter resolver
  otherwise.
\<close>

definition direct_dispatch :: "EventHandler \<Rightarrow> string \<Rightarrow> Message \<Rightarrow> unit outcome" where
  "direct_dispatch w event data =
     (case events w event of
        None \<Rightarrow> (Inr (), w)
      | Some f \<Rightarrow>
          let context = \<lparr>intents = handler_intents w, message = data\<rparr> in
          if event \<in> set [''user_online'', ''member_set_you_host'', ''member_set_you_cohost'',
                          ''member_remove_your_cohost'']
          then invoke f [Arg_data data] w
          else handle_all_events w event data context)"

text \<open>
  The first \<open>if\<close> of \<open>_handle_event\<close>, for \<open>text_message\<close>. The list given to \<open>all\<close> is
  built first, so the candidate command name is computed whatever the flag is.
\<close>

definition text_dispatch :: "Clock \<Rightarrow> EventHandler \<Rightarrow> Message \<Rightarrow> unit outcome" where
  "text_dispatch clock w data =
     (let context = \<lparr>intents = handler_intents w, message = data\<rparr> in
      case content data of
        None \<Rightarrow> (Inl TypeError, w)
      | Some text \<Rightarrow>
          if handler_intents w
             \<and> \<not> command_exists w
                   (takeWhile (\<lambda>ch. ch \<noteq> CHR '' '') (drop (length (command_prefix w)) text))
          then
            (case author data of
               None \<Rightarrow> (Inl AttributeError, w)
             | Some a \<Rightarrow>
                 handle_command clock (add_cache clock w (chatId data) (userId a) text)
                   data context)
          else handle_command clock w data context)"

text \<open>
  \<open>_handle_event\<close>: the two \<open>if\<close> statements stand one after the other inside the
  \<open>with\<close> block, and the first one does not return.
\<close>

definition handle_event :: "Clock \<Rightarrow> EventHandler \<Rightarrow> string \<Rightarrow> Message \<Rightarrow> unit outcome" where
  "handle_event clock w event data =
     suppress_KeyError
       (case (if event = ''text_message'' then text_dispatch clock w data else (Inr (), w)) of
          (Inl e, w') \<Rightarrow> (Inl e, w')
        | (Inr u, w') \<Rightarrow> direct_dispatch w' event data)"

subsection \<open>Waiting for a reply\<close>

text \<open>
  \<open>Context.wait_for_message(message, timeout)\<close> runs in the thread of a handler while the
  receiving thread goes on recording messages, so what a poll finds is decided outside the
  call. The call is given the cache as it is when the call is made, the reading
  \<open>start = time()\<close>, and one observation for each evaluation of the loop condition: the
  reading of \<open>time()\<close> there and the content of the shared cache at that moment. It
  returns what the call returns or raises, the cache as the call leaves it and the number
  of reads of the cache it made; \<open>None\<close> when the observations end before the call has
  returned.
\<close>

record waited =
  returned :: "exn + Message option"
  cache_after :: Cache
  reads :: nat

fun wait_loop ::
  "Context \<Rightarrow> string \<Rightarrow> real \<Rightarrow> real \<Rightarrow> nat \<Rightarrow> (real \<times> Cache) list \<Rightarrow> waited option" where
  "wait_loop context expected timeout start n [] = None"
| "wait_loop context expected timeout start n ((now, cache) # rest) =
     (case author (message context) of
        None \<Rightarrow> Some \<lparr>returned = Inl AttributeError, cache_after = cache, reads = n\<rparr>
      | Some a \<Rightarrow>
          let key = cache_key (chatId (message context)) (userId a) in
          if now - start < timeout then
            (let cached_message = Cache_get cache key now in
             if cached_message = Some expected then
               Some \<lparr>returned = Inr (Some (message context)),
                     cache_after = Cache_clear cache key, reads = Suc n\<rparr>
             else if cached_message \<noteq> None \<and> cached_message \<noteq> Some expected then
               Some \<lparr>returned = Inr None, cache_after = Cache_clear cache key, reads = Suc n\<rparr>
             else wait_loop context expected timeout start (Suc n) rest)
          else Some \<lparr>returned = Inr None, cache_after = Cache_clear cache key, reads = n\<rparr>)"

definition wait_for_message ::
  "Context \<Rightarrow> string \<Rightarrow> real \<Rightarrow> Cache \<Rightarrow> real \<Rightarrow> (real \<times> Cache) list \<Rightarrow> waited option" where
  "wait_for_message context expected timeout cache0 start observations =
     (if \<not> intents context
      then Some \<lparr>returned = Inl IntentsNotEnabled, cache_after = cache0, reads = 0\<rparr>
      else wait_loop context expected timeout start 0 observations)"

subsection \<open>Notions used to state the properties\<close>

text \<open>What a step added to the trace of the state it started from.\<close>

definition effects_of :: "EventHandler \<Rightarrow> 'a outcome \<Rightarrow> effect list" where
  "effects_of w r = drop (length (trace w)) (trace (snd r))"


text \<open>
  The candidate command name in the words of the spec, to be compared with the one that
  \<open>_handle_command\<close> computes: the leading whitespace-delimited token of the text that
  follows the prefix. Whitespace is what Python's \<open>str.split()\<close> splits at: space, tab,
  line feed, vertical tab, form feed and carriage return.
\<close>

definition whitespace :: "char \<Rightarrow> bool" where
  "whitespace ch \<longleftrightarrow> ch \<in> set [CHR 0x20, CHR 0x09, CHR 0x0A, CHR 0x0B, CHR 0x0C, CHR 0x0D]"

definition spec_leading_token :: "string \<Rightarrow> string \<Rightarrow> string" where
  "spec_leading_token prefix text =
     takeWhile (\<lambda>ch. \<not> whitespace ch) (dropWhile whitespace (drop (length prefix) text))"

subsection \<open>Sample inputs\<close>

text \<open>Concrete values on which the definitions are evaluated below.\<close>

definition alice :: MessageAuthor where
  "alice = \<lparr>userId = ''userA'', username = ''Alice''\<rparr>"

definition text_from :: "MessageAuthor option \<Rightarrow> string \<Rightarrow> Message" where
  "text_from sender text = \<lparr>content = Some text, chatId = ''chat1'', author = sender\<rparr>"

definition context_of :: "bool \<Rightarrow> Message \<Rightarrow> Context" where
  "context_of flag data = \<lparr>intents = flag, message = data\<rparr>"

definition ping_handler :: Handler where
  "ping_handler =
     \<lparr>handler_name = ''ping'', parameters = [''ctx'', ''message''], raises = None\<rparr>"

definition text_handler :: Handler where
  "text_handler =
     \<lparr>handler_name = ''on_text_message'', parameters = [''ctx''], raises = None\<rparr>"

definition console_handler :: Handler where
  "console_handler = \<lparr>handler_name = ''console'', parameters = [''ctx''], raises = None\<rparr>"



definition ping_command :: Command where
  "ping_command =
     \<lparr>name = ''ping'', description = Some ''Answers pong'', usage = None, aliases = [''p''],
      cooldown = 0, func = ping_handler\<rparr>"

definition sample_bot :: EventHandler where
  "sample_bot =
     \<lparr>command_prefix = ''!'', events = Map.empty, wait_for = Map.empty,
      commands = add_command \<lparr>table = [], cooldowns = Map.empty\<rparr> ping_command,
      handler_intents = False, console_first = False, trace = []\<rparr>"

definition roll_handler :: Handler where
  "roll_handler =
     \<lparr>handler_name = ''roll'', parameters = [''ctx'', ''username''], raises = None\<rparr>"

definition roll_command :: Command where
  "roll_command =
     \<lparr>name = ''roll'', description = None, usage = None, aliases = [''r''],
      cooldown = 5, func = roll_handler\<rparr>"

definition dice_bot :: EventHandler where
  "dice_bot = sample_bot\<lparr>commands := add_command (commands sample_bot) roll_command\<rparr>"

definition help_handler :: Handler where
  "help_handler =
     \<lparr>handler_name = ''help'', parameters = [''ctx'', ''message''], raises = None\<rparr>"

definition help_command :: Command where
  "help_command =
     \<lparr>name = ''help'', description = Some ''Shows the manual'', usage = None, aliases = [],
      cooldown = 0, func = help_handler\<rparr>"

definition help_bot :: EventHandler where
  "help_bot = sample_bot\<lparr>commands := add_command (commands sample_bot) help_command\<rparr>"

definition noon :: Clock where
  "noon = \<lparr>at_get = 100, at_add = 100, at_check = 100, at_reply = 100, at_set = 100\<rparr>"

section \<open>Properties\<close>

lemmas sample_defs =
  alice_def text_from_def context_of_def ping_handler_def ping_command_def sample_bot_def
  noon_def

lemmas resolver_defs = set_parameters_def potential_parameters_def Context_author_def

lemmas router_defs =
  handle_command_def check_cooldown_def command_exists_def command_names_def
  command_aliases_def fetch_command_def add_command_def set_order_def
  handle_all_events_def call_with_parameters_def invoke_def reply_def

lemmas dispatcher_defs =
  handle_event_def text_dispatch_def direct_dispatch_def suppress_KeyError_def register_def

lemmas cache_defs = cache_key_def Cache_get_def Cache_add_def Cache_clear_def

subsection \<open>The parameter resolver\<close>

lemma set_parameters_author:
  "author (message context) = Some a \<Longrightarrow>
   set_parameters context f override
   = Inr (map (\<lambda>parameter.
                 case map_of (potential_parameters context a
                        (case override of Some s \<Rightarrow> Some s | None \<Rightarrow> content (message context))
                        (Some (username a)) (Some (userId a))) parameter of
                   None \<Rightarrow> Arg_none
                 | Some v \<Rightarrow> v)
              (parameters f))"
  by (simp add: set_parameters_def Context_author_def)

lemma set_parameters_length:
  "set_parameters ctx f override = Inr args \<Longrightarrow> length args = length (parameters f)"
  by (auto simp: set_parameters_def Let_def split: option.splits)

lemma set_parameters_message:
  assumes "set_parameters ctx f (Some remainder) = Inr args"
    and "i < length (parameters f)"
    and "parameters f ! i = ''message''"
  shows "args ! i = Arg_str remainder"
  using assms
  by (auto simp: set_parameters_def potential_parameters_def Let_def split: option.splits)

text \<open>
  C10. \<open>Member(context.author.json())\<close> is evaluated before the declared names are looked
  up, so resolving the arguments of any handler, whatever it declares (nothing at all,
  or only names that do not concern the author), raises \<open>AttributeError\<close> when the
  message of the context carries no author; no argument list is returned.
\<close>

theorem resolver_raises_without_author:
  "author (message context) = None \<Longrightarrow> set_parameters context f override = Inl AttributeError"
  by (simp add: set_parameters_def Context_author_def)

theorem resolver_raises_without_author_witness:
  "author (message (context_of False (text_from None ''hello''))) = None
   \<and> set_parameters (context_of False (text_from None ''hello''))
        \<lparr>handler_name = ''task'', parameters = [], raises = None\<rparr> None
     = Inl AttributeError"
  using resolver_raises_without_author [of "context_of False (text_from None ''hello'')"
      "\<lparr>handler_name = ''task'', parameters = [], raises = None\<rparr>" None]
  by (simp add: sample_defs)

text \<open>
  C7. The resolver is to return one argument for each declared name for every handler
  and every context, with a null for what is absent. For a context whose message has no
  author and a handler that declares only \<open>ctx\<close> it raises \<open>AttributeError\<close> instead of
  returning the one-element list that holds the context.
\<close>

theorem resolver_fails_on_context_only_handler:
  "set_parameters (context_of False (text_from None ''hello'')) text_handler None
   = Inl AttributeError"
  by (simp add: sample_defs text_handler_def resolver_defs)

subsection \<open>The command table\<close>

lemma table_set_cooldown: "table (set_cooldown cs n seconds uid now) = table cs"
  by (simp add: set_cooldown_def)

lemma command_aliases_set_cooldown:
  "command_aliases (set_cooldown cs n seconds uid now) = command_aliases cs"
  by (simp add: command_aliases_def table_set_cooldown)

lemma fetch_command_set_cooldown:
  "fetch_command (set_cooldown cs n seconds uid now) m = fetch_command cs m"
  by (simp add: fetch_command_def table_set_cooldown command_aliases_set_cooldown
      cong: option.case_cong)

lemma find_name_in_table:
  "c \<in> set (table cs) \<Longrightarrow> \<exists>d. find (\<lambda>c'. name c' = name c) (table cs) = Some d"
  by (cases "find (\<lambda>c'. name c' = name c) (table cs)") (auto simp: find_None_iff)

lemma alias_target_in_table:
  "map_of (command_aliases cs) n = Some canonical \<Longrightarrow>
   \<exists>c \<in> set (table cs). name c = canonical"
  by (auto dest!: map_of_SomeD simp: command_aliases_def)

lemma fetch_command_name:
  assumes "fetch_command cs n = Inr c" and "map_of (command_aliases cs) n = None"
  shows "name c = n"
proof (cases "find (\<lambda>c'. name c' = n) (table cs)")
  case None
  with assms show ?thesis by (simp add: fetch_command_def)
next
  case (Some d)
  with assms have "d = c" by (simp add: fetch_command_def)
  with Some show ?thesis by (auto simp: find_Some_iff)
qed

lemma command_exists_fetch:
  assumes "command_exists w n"
  shows "\<exists>c. fetch_command (commands w)
               (case map_of (command_aliases (commands w)) n of
                  Some canonical \<Rightarrow> canonical | None \<Rightarrow> n) = Inr c"
proof (cases "map_of (command_aliases (commands w)) n")
  case None
  then have "n \<notin> set (map fst (command_aliases (commands w)))"
    by (simp add: map_of_eq_None_iff)
  with assms obtain c where "c \<in> set (table (commands w))" "name c = n"
    by (auto simp: command_exists_def command_names_def)
  then obtain d where "find (\<lambda>c'. name c' = n) (table (commands w)) = Some d"
    using find_name_in_table by blast
  with None show ?thesis by (simp add: fetch_command_def)
next
  case (Some canonical)
  then obtain c where "c \<in> set (table (commands w))" "name c = canonical"
    using alias_target_in_table by blast
  then obtain d where "find (\<lambda>c'. name c' = canonical) (table (commands w)) = Some d"
    using find_name_in_table by blast
  with Some show ?thesis by (simp add: fetch_command_def)
qed

subsection \<open>The command router\<close>

text \<open>
  The path of \<open>_handle_command\<close> for a message that starts with the prefix and whose
  candidate name is registered.
\<close>

lemma handle_command_matched:
  assumes "content data = Some text"
    and "take (length (command_prefix w)) text = command_prefix w"
    and "token = takeWhile (\<lambda>ch. ch \<noteq> CHR '' '') (drop (length (command_prefix w)) text)"
    and "command_exists w token"
    and "canonical = (case map_of (command_aliases (commands w)) token of
                        Some n \<Rightarrow> n | None \<Rightarrow> token)"
    and "fetch_command (commands w) canonical = Inr c"
    and "remainder = drop (length (command_prefix w) + length token + 1) text"
  shows "handle_command clock w data context =
     (if 0 < cooldown c then
        (case author data of
           None \<Rightarrow> (Inl AttributeError, w)
         | Some a \<Rightarrow>
             if at_check clock < fetch_cooldown (commands w) canonical (userId a) then
               (Inr (), w\<lparr>trace := trace w @ [Reply (Text (''You are on cooldown for ''
                      @ str_int (py_int (fetch_cooldown (commands w) canonical (userId a)
                                          - at_reply clock))
                      @ '' seconds.''))]\<rparr>)
             else call_with_parameters (func c) context (Some remainder)
                    (w\<lparr>commands := set_cooldown (commands w) canonical (cooldown c) (userId a)
                                     (at_set clock)\<rparr>))
      else call_with_parameters (func c) context (Some remainder) w)"
  using assms
  by (simp add: handle_command_def check_cooldown_def reply_def Let_def
      fetch_command_set_cooldown split: option.splits)

text \<open>
  C2. A message that starts with the prefix and names a registered command whose
  cooldown is positive, sent by a user \<open>a\<close>. If the cooldown record of (command, user)
  is there and has not expired when \<open>_check_cooldown\<close> reads the clock, the router
  replies that the user is on cooldown for N seconds, calls no handler and leaves the
  table as it is. Otherwise the handler is called in a state whose record is already
  the clock plus the cooldown of the command: the record is written on these
  invocations only.
\<close>

theorem cooldown_gate:
  assumes "content data = Some text"
    and "take (length (command_prefix w)) text = command_prefix w"
    and "token = takeWhile (\<lambda>ch. ch \<noteq> CHR '' '') (drop (length (command_prefix w)) text)"
    and "command_exists w token"
    and "canonical = (case map_of (command_aliases (commands w)) token of
                        Some n \<Rightarrow> n | None \<Rightarrow> token)"
    and "fetch_command (commands w) canonical = Inr c"
    and "0 < cooldown c"
    and "author data = Some a"
    and "set_parameters context (func c)
           (Some (drop (length (command_prefix w) + length token + 1) text)) = Inr args"
    and "0 \<le> at_check clock"
  shows "handle_command clock w data context =
     (case cooldowns (commands w) (canonical, userId a) of
        Some expiry \<Rightarrow>
          if at_check clock < expiry then
            (Inr (), w\<lparr>trace := trace w @ [Reply (Text (''You are on cooldown for ''
                      @ str_int (py_int (expiry - at_reply clock)) @ '' seconds.''))]\<rparr>)
          else invoke (func c) args
                 (w\<lparr>commands := (commands w)\<lparr>cooldowns :=
                     (cooldowns (commands w))((canonical, userId a) \<mapsto>
                        at_set clock + of_int (cooldown c))\<rparr>\<rparr>)
      | None \<Rightarrow>
          invoke (func c) args
            (w\<lparr>commands := (commands w)\<lparr>cooldowns :=
                (cooldowns (commands w))((canonical, userId a) \<mapsto>
                   at_set clock + of_int (cooldown c))\<rparr>\<rparr>))"
  using assms handle_command_matched [OF assms(1-6) refl, of clock]
  by (simp add: fetch_cooldown_def set_cooldown_def call_with_parameters_def
      split: option.splits)

theorem cooldown_gate_witness:
  "handle_command noon
     (dice_bot\<lparr>commands := set_cooldown (commands dice_bot) ''roll'' 5 ''userA'' 98\<rparr>)
     (text_from (Some alice) ''!r now'')
     (context_of False (text_from (Some alice) ''!r now''))
   = (Inr (),
      dice_bot\<lparr>commands := set_cooldown (commands dice_bot) ''roll'' 5 ''userA'' 98,
               trace := [Reply (Text ''You are on cooldown for 3 seconds.'')]\<rparr>)
   \<and> handle_command noon dice_bot (text_from (Some alice) ''!r now'')
       (context_of False (text_from (Some alice) ''!r now''))
   = (Inr (),
      dice_bot\<lparr>commands := set_cooldown (commands dice_bot) ''roll'' 5 ''userA'' 100,
               trace := [Call roll_handler
                  [Arg_context (context_of False (text_from (Some alice) ''!r now'')),
                   Arg_str ''Alice'']]\<rparr>)"
proof -
  let ?busy = "dice_bot\<lparr>commands := set_cooldown (commands dice_bot) ''roll'' 5 ''userA'' 98\<rparr>"
  let ?data = "text_from (Some alice) ''!r now''"
  let ?ctx = "context_of False ?data"
  let ?args = "[Arg_context ?ctx, Arg_str ''Alice'']"
  have data: "content ?data = Some ''!r now''" "author ?data = Some alice"
    by (simp_all add: text_from_def)
  have prefix: "take (length (command_prefix ?busy)) ''!r now'' = command_prefix ?busy"
    "take (length (command_prefix dice_bot)) ''!r now'' = command_prefix dice_bot"
    by (simp_all add: dice_bot_def sample_bot_def)
  have token:
    "''r'' = takeWhile (\<lambda>ch. ch \<noteq> CHR '' '') (drop (length (command_prefix ?busy)) ''!r now'')"
    "''r'' = takeWhile (\<lambda>ch. ch \<noteq> CHR '' '') (drop (length (command_prefix dice_bot)) ''!r now'')"
    by (simp_all add: dice_bot_def sample_bot_def)
  have registered: "command_exists ?busy ''r''" "command_exists dice_bot ''r''"
    by (simp_all add: sample_defs roll_handler_def roll_command_def dice_bot_def
        command_exists_def command_names_def command_aliases_def add_command_def
        set_cooldown_def)
  have canonical:
    "''roll'' = (case map_of (command_aliases (commands ?busy)) ''r'' of
                   Some n \<Rightarrow> n | None \<Rightarrow> ''r'')"
    "''roll'' = (case map_of (command_aliases (commands dice_bot)) ''r'' of
                   Some n \<Rightarrow> n | None \<Rightarrow> ''r'')"
    by (simp_all add: sample_defs roll_handler_def roll_command_def dice_bot_def
        command_aliases_def add_command_def set_cooldown_def)
  have entry: "fetch_command (commands ?busy) ''roll'' = Inr roll_command"
    "fetch_command (commands dice_bot) ''roll'' = Inr roll_command"
    by (simp_all add: sample_defs roll_handler_def roll_command_def dice_bot_def
        fetch_command_def command_aliases_def add_command_def set_cooldown_def)
  have positive: "0 < cooldown roll_command"
    by (simp add: roll_command_def)
  have args:
    "set_parameters ?ctx (func roll_command)
       (Some (drop (length (command_prefix ?busy) + length ''r'' + 1) ''!r now'')) = Inr ?args"
    "set_parameters ?ctx (func roll_command)
       (Some (drop (length (command_prefix dice_bot) + length ''r'' + 1) ''!r now'')) = Inr ?args"
    by (simp_all add: sample_defs roll_handler_def roll_command_def dice_bot_def
        resolver_defs)
  have epoch: "0 \<le> at_check noon"
    by (simp add: noon_def)
  show ?thesis
    using cooldown_gate [OF data(1) prefix(1) token(1) registered(1) canonical(1) entry(1)
        positive data(2) args(1) epoch]
      cooldown_gate [OF data(1) prefix(2) token(2) registered(2) canonical(2) entry(2)
        positive data(2) args(2) epoch]
    by (simp add: sample_defs roll_handler_def roll_command_def dice_bot_def add_command_def
        set_cooldown_def invoke_def py_int_def str_int_def str_nat.simps)
qed

lemma effects_of_call_with_parameters:
  assumes "trace w' = trace w"
    and "Call f args \<in> set (effects_of w (call_with_parameters g ctx override w'))"
  shows "f = g \<and> set_parameters ctx g override = Inr args"
  using assms
  by (auto simp: effects_of_def call_with_parameters_def invoke_def split: sum.splits)

lemma split_at_first_space:
  assumes "token = takeWhile (\<lambda>ch. ch \<noteq> CHR '' '') rest"
    and "remainder = drop (length token + 1) rest"
  shows "rest = token \<and> remainder = [] \<or> rest = token @ '' '' @ remainder"
proof (cases "dropWhile (\<lambda>ch. ch \<noteq> CHR '' '') rest")
  case Nil
  then have "rest = token"
    using assms(1) by (metis append_Nil2 takeWhile_dropWhile_id)
  then show ?thesis using assms(2) by simp
next
  case (Cons ch tail)
  then have "ch = CHR '' ''"
    using hd_dropWhile [of "\<lambda>ch. ch \<noteq> CHR '' ''" rest] by simp
  moreover have "rest = token @ ch # tail"
    using assms(1) Cons by (metis takeWhile_dropWhile_id)
  ultimately show ?thesis using assms(2) by simp
qed

text \<open>
  C6, as amended. A message that starts with the prefix and whose text after the prefix,
  up to the first space character or the end, names a registered command (directly or
  through an alias) is the prefix, that token and, unless it ends there, one space and a
  remainder. Every call of a handler that the router makes for it passes this remainder
  for a declared parameter \<open>message\<close>; the handler of the command is called when the
  command has no cooldown and the message of the context has an author.
\<close>

theorem command_message_is_remainder:
  assumes "content data = Some text"
    and "take (length (command_prefix w)) text = command_prefix w"
    and "token = takeWhile (\<lambda>ch. ch \<noteq> CHR '' '') (drop (length (command_prefix w)) text)"
    and "command_exists w token"
    and "canonical = (case map_of (command_aliases (commands w)) token of
                        Some n \<Rightarrow> n | None \<Rightarrow> token)"
    and "remainder = drop (length (command_prefix w) + length token + 1) text"
  shows "(text = command_prefix w @ token \<and> remainder = []
          \<or> text = command_prefix w @ token @ '' '' @ remainder)
     \<and> (\<forall>f args.
           Call f args \<in> set (effects_of w (handle_command clock w data context)) \<longrightarrow>
           (\<forall>i < length (parameters f).
              parameters f ! i = ''message'' \<longrightarrow> args ! i = Arg_str remainder))
     \<and> (\<exists>c. fetch_command (commands w) canonical = Inr c
           \<and> (cooldown c \<le> 0 \<and> author (message context) \<noteq> None \<longrightarrow>
                (\<exists>args. length args = length (parameters (func c))
                   \<and> handle_command clock w data context = invoke (func c) args w)))"
proof -
  obtain c where c: "fetch_command (commands w) canonical = Inr c"
    using command_exists_fetch [OF assms(4)] assms(5) by auto
  note matched = handle_command_matched [OF assms(1-5) c assms(6), of clock "context"]
  let ?rest = "drop (length (command_prefix w)) text"
  have "remainder = drop (length token + 1) ?rest"
    using assms(6) by (simp add: add.commute add.left_commute)
  with assms(3) have "?rest = token \<and> remainder = [] \<or> ?rest = token @ '' '' @ remainder"
    by (rule split_at_first_space)
  moreover have "text = command_prefix w @ ?rest"
    using assms(2) append_take_drop_id [of "length (command_prefix w)" "text"] by simp
  ultimately have shape: "text = command_prefix w @ token \<and> remainder = []
          \<or> text = command_prefix w @ token @ '' '' @ remainder"
    by auto
  have passed: "args ! i = Arg_str remainder"
    if "Call f args \<in> set (effects_of w (handle_command clock w data context))"
      and "i < length (parameters f)" and "parameters f ! i = ''message''" for f args i
  proof -
    have "f = func c \<and> set_parameters context (func c) (Some remainder) = Inr args"
    proof (cases "0 < cooldown c")
      case False
      with that(1) matched show ?thesis
        using effects_of_call_with_parameters [of w w f args "func c" "context" "Some remainder"]
        by simp
    next
      case True
      show ?thesis
      proof (cases "author data")
        case None
        with True that(1) matched show ?thesis by (simp add: effects_of_def)
      next
        case (Some a)
        show ?thesis
        proof (cases "at_check clock < fetch_cooldown (commands w) canonical (userId a)")
          case blocked: True
          with True Some that(1) matched show ?thesis by (simp add: effects_of_def)
        next
          case False
          with True Some that(1) matched show ?thesis
            using effects_of_call_with_parameters
              [of "w\<lparr>commands := set_cooldown (commands w) canonical (cooldown c) (userId a)
                    (at_set clock)\<rparr>" w f args "func c" "context" "Some remainder"]
            by simp
        qed
      qed
    qed
    with that(2,3) show ?thesis
      using set_parameters_message by blast
  qed
  have called: "\<exists>args. length args = length (parameters (func c))
                   \<and> handle_command clock w data context = invoke (func c) args w"
    if "cooldown c \<le> 0" and "author (message context) \<noteq> None"
  proof -
    from that(2) obtain args where args: "set_parameters context (func c) (Some remainder) = Inr args"
      by (auto simp: set_parameters_def Context_author_def)
    with that(1) matched have "handle_command clock w data context = invoke (func c) args w"
      by (simp add: call_with_parameters_def)
    with args show ?thesis
      using set_parameters_length by blast
  qed
  from shape passed called c show ?thesis
    by blast
qed

theorem command_message_is_remainder_witness:
  "content (text_from (Some alice) ''!ping extra text'') = Some ''!ping extra text''
   \<and> take (length (command_prefix sample_bot)) ''!ping extra text'' = command_prefix sample_bot
   \<and> command_exists sample_bot ''ping''
   \<and> handle_command noon sample_bot (text_from (Some alice) ''!ping extra text'')
         (context_of False (text_from (Some alice) ''!ping extra text''))
       = invoke ping_handler
           [Arg_context (context_of False (text_from (Some alice) ''!ping extra text'')),
            Arg_str ''extra text''] sample_bot"
proof -
  let ?data = "text_from (Some alice) ''!ping extra text''"
  let ?ctx = "context_of False ?data"
  have data: "content ?data = Some ''!ping extra text''"
    by (simp add: text_from_def)
  have prefix:
    "take (length (command_prefix sample_bot)) ''!ping extra text'' = command_prefix sample_bot"
    by (simp add: sample_bot_def)
  have token: "''ping'' = takeWhile (\<lambda>ch. ch \<noteq> CHR '' '')
                 (drop (length (command_prefix sample_bot)) ''!ping extra text'')"
    by (simp add: sample_bot_def)
  have registered: "command_exists sample_bot ''ping''"
    by (simp add: sample_defs command_exists_def command_names_def add_command_def)
  have canonical:
    "''ping'' = (case map_of (command_aliases (commands sample_bot)) ''ping'' of
                   Some n \<Rightarrow> n | None \<Rightarrow> ''ping'')"
    by (simp add: sample_defs command_aliases_def add_command_def)
  have remainder:
    "''extra text'' = drop (length (command_prefix sample_bot) + length ''ping'' + 1)
                        ''!ping extra text''"
    by (simp add: sample_bot_def)
  have entry: "fetch_command (commands sample_bot) ''ping'' = Inr ping_command"
    by (simp add: sample_defs fetch_command_def add_command_def)
  have sender: "author (message ?ctx) \<noteq> None"
    by (simp add: context_of_def text_from_def)
  from command_message_is_remainder [OF data prefix token registered canonical remainder,
      of noon ?ctx] entry sender
  obtain args where
    called: "handle_command noon sample_bot ?data ?ctx = invoke (func ping_command) args sample_bot"
    by (auto simp: ping_command_def)
  then have "args = [Arg_context ?ctx, Arg_str ''extra text'']"
    by (auto simp add: sample_defs router_defs resolver_defs Let_def)
  with called data prefix registered show ?thesis
    by (simp add: ping_command_def)
qed

text \<open>
  C6, as stated, fails: the first whitespace-delimited token of the message that is
  \<open>!ping\<close>, a line feed and \<open>extra text\<close> is \<open>ping\<close>, a registered command, but
  \<open>split(" ")\<close> cuts at spaces only, the candidate name is not registered and no handler
  is called.
\<close>

theorem newline_after_command_counterexample:
  "take (length (command_prefix sample_bot)) (''!ping'' @ [CHR 0x0A] @ ''extra text'')
     = command_prefix sample_bot
   \<and> spec_leading_token (command_prefix sample_bot) (''!ping'' @ [CHR 0x0A] @ ''extra text'')
     = ''ping''
   \<and> command_exists sample_bot ''ping''
   \<and> handle_command noon sample_bot
         (text_from (Some alice) (''!ping'' @ [CHR 0x0A] @ ''extra text''))
         (context_of False (text_from (Some alice) (''!ping'' @ [CHR 0x0A] @ ''extra text'')))
       = (Inr (), sample_bot)"
  by (simp add: sample_defs router_defs spec_leading_token_def whitespace_def Let_def)

text \<open>
  C9. A message whose content is the prefix followed by \<open>help\<close> and nothing else. If
  \<open>help\<close> is neither a canonical name nor an alias, the router replies with the rendered
  help listing and does nothing else. If it is registered, no listing is produced: the
  router takes the path of the command, which is the command named \<open>help\<close> unless an
  alias of that spelling redirects it, checks its cooldown and calls its handler with
  the empty remainder.
\<close>

theorem help_routing:
  assumes "content data = Some (command_prefix w @ ''help'')"
    and "canonical = (case map_of (command_aliases (commands w)) ''help'' of
                        Some n \<Rightarrow> n | None \<Rightarrow> ''help'')"
  shows "(\<not> command_exists w ''help'' \<longrightarrow>
            handle_command clock w data context
            = (Inr (), w\<lparr>trace := trace w @ [Reply (Help_listing (table (commands w)))]\<rparr>))
     \<and> (command_exists w ''help'' \<longrightarrow>
          (\<exists>c. fetch_command (commands w) canonical = Inr c
             \<and> (map_of (command_aliases (commands w)) ''help'' = None \<longrightarrow> name c = ''help'')
             \<and> handle_command clock w data context =
                 (if 0 < cooldown c then
                    (case author data of
                       None \<Rightarrow> (Inl AttributeError, w)
                     | Some a \<Rightarrow>
                         if at_check clock < fetch_cooldown (commands w) canonical (userId a)
                         then
                           (Inr (), w\<lparr>trace := trace w @ [Reply (Text
                              (''You are on cooldown for ''
                               @ str_int (py_int (fetch_cooldown (commands w) canonical
                                                    (userId a) - at_reply clock))
                               @ '' seconds.''))]\<rparr>)
                         else call_with_parameters (func c) context (Some [])
                                (w\<lparr>commands := set_cooldown (commands w) canonical
                                     (cooldown c) (userId a) (at_set clock)\<rparr>))
                  else call_with_parameters (func c) context (Some []) w)))"
proof (intro conjI impI)
  assume "\<not> command_exists w ''help''"
  with assms(1) show "handle_command clock w data context
      = (Inr (), w\<lparr>trace := trace w @ [Reply (Help_listing (table (commands w)))]\<rparr>)"
    by (simp add: handle_command_def reply_def Let_def)
next
  let ?text = "command_prefix w @ ''help''"
  assume registered: "command_exists w ''help''"
  have prefix: "take (length (command_prefix w)) ?text = command_prefix w"
    by simp
  have token: "''help'' = takeWhile (\<lambda>ch. ch \<noteq> CHR '' '')
                            (drop (length (command_prefix w)) ?text)"
    by simp
  have remainder: "[] = drop (length (command_prefix w) + length ''help'' + 1) ?text"
    by simp
  obtain c where c: "fetch_command (commands w) canonical = Inr c"
    using command_exists_fetch [OF registered] assms(2) by auto
  have named: "name c = ''help''" if "map_of (command_aliases (commands w)) ''help'' = None"
    using that c assms(2) fetch_command_name [of "commands w" "''help''" c] by simp
  let ?run = "\<lambda>c.
     if 0 < cooldown c then
       (case author data of
          None \<Rightarrow> (Inl AttributeError, w)
        | Some a \<Rightarrow>
            if at_check clock < fetch_cooldown (commands w) canonical (userId a)
            then
              (Inr (), w\<lparr>trace := trace w @ [Reply (Text
                 (''You are on cooldown for ''
                  @ str_int (py_int (fetch_cooldown (commands w) canonical
                                       (userId a) - at_reply clock))
                  @ '' seconds.''))]\<rparr>)
            else call_with_parameters (func c) context (Some [])
                   (w\<lparr>commands := set_cooldown (commands w) canonical
                        (cooldown c) (userId a) (at_set clock)\<rparr>))
     else call_with_parameters (func c) context (Some []) w"
  have run: "handle_command clock w data context = ?run c"
    by (rule handle_command_matched [OF assms(1) prefix token registered assms(2) c remainder])
  show "\<exists>c. fetch_command (commands w) canonical = Inr c
             \<and> (map_of (command_aliases (commands w)) ''help'' = None \<longrightarrow> name c = ''help'')
             \<and> handle_command clock w data context = ?run c"
  proof (intro exI [of _ c] conjI impI)
    show "fetch_command (commands w) canonical = Inr c"
      by (fact c)
    show "name c = ''help''" if "map_of (command_aliases (commands w)) ''help'' = None"
      using that by (rule named)
    show "handle_command clock w data context = ?run c"
      by (fact run)
  qed
qed

theorem help_routing_witness:
  "content (text_from (Some alice) ''!help'') = Some (command_prefix sample_bot @ ''help'')
   \<and> \<not> command_exists sample_bot ''help''
   \<and> handle_command noon sample_bot (text_from (Some alice) ''!help'')
         (context_of False (text_from (Some alice) ''!help''))
       = (Inr (), sample_bot\<lparr>trace := [Reply (Help_listing [ping_command])]\<rparr>)
   \<and> command_exists help_bot ''help''
   \<and> handle_command noon help_bot (text_from (Some alice) ''!help'')
         (context_of False (text_from (Some alice) ''!help''))
       = (Inr (), help_bot\<lparr>trace := [Call help_handler
            [Arg_context (context_of False (text_from (Some alice) ''!help'')), Arg_str []]]\<rparr>)"
proof -
  let ?data = "text_from (Some alice) ''!help''"
  let ?ctx = "context_of False ?data"
  have data: "content ?data = Some (command_prefix sample_bot @ ''help'')"
    "content ?data = Some (command_prefix help_bot @ ''help'')"
    by (simp_all add: sample_defs help_handler_def help_command_def help_bot_def)
  have canonical:
    "''help'' = (case map_of (command_aliases (commands sample_bot)) ''help'' of
                   Some n \<Rightarrow> n | None \<Rightarrow> ''help'')"
    "''help'' = (case map_of (command_aliases (commands help_bot)) ''help'' of
                   Some n \<Rightarrow> n | None \<Rightarrow> ''help'')"
    by (simp_all add: sample_defs help_handler_def help_command_def help_bot_def
        command_aliases_def add_command_def)
  have unregistered: "\<not> command_exists sample_bot ''help''"
    by (simp add: sample_defs help_handler_def help_command_def help_bot_def
        command_exists_def command_names_def command_aliases_def add_command_def)
  have registered: "command_exists help_bot ''help''"
    by (simp add: sample_defs help_handler_def help_command_def help_bot_def
        command_exists_def command_names_def command_aliases_def add_command_def)
  have entry: "fetch_command (commands help_bot) ''help'' = Inr help_command"
    by (simp add: sample_defs help_handler_def help_command_def help_bot_def
        fetch_command_def add_command_def)
  have listing: "handle_command noon sample_bot ?data ?ctx
      = (Inr (), sample_bot\<lparr>trace := [Reply (Help_listing [ping_command])]\<rparr>)"
    using help_routing [OF data(1) canonical(1), of noon ?ctx] unregistered
    by (simp add: sample_defs help_handler_def help_command_def help_bot_def add_command_def)
  have command: "handle_command noon help_bot ?data ?ctx
      = (Inr (), help_bot\<lparr>trace := [Call help_handler [Arg_context ?ctx, Arg_str []]]\<rparr>)"
    using help_routing [OF data(2) canonical(2), of noon ?ctx] registered entry
    by (auto simp add: sample_defs help_handler_def help_command_def help_bot_def
        add_command_def call_with_parameters_def resolver_defs invoke_def)
  from data(1) unregistered listing registered command show ?thesis
    by simp
qed

subsection \<open>The dispatcher on text messages\<close>

text \<open>
  C1. A text message is to go through the command router in place of the direct
  dispatch: the generic text-message handler is not to be called for a message that
  matches a command, and is to be called exactly once for a message that matches none.
  In \<open>_handle_event\<close> the direct dispatch follows the router: for \<open>!ping extra text\<close> the
  handler of \<open>ping\<close> is called and then the text-message handler, and for \<open>hello\<close>, with
  the console's handler registered too, the text-message handler is called twice.
\<close>

theorem text_message_handler_called_again:
  "trace (snd (handle_event noon (on_text_message sample_bot text_handler) ''text_message''
                 (text_from (Some alice) ''!ping extra text'')))
   = [Call ping_handler
        [Arg_context (context_of False (text_from (Some alice) ''!ping extra text'')),
         Arg_str ''extra text''],
      Call text_handler
        [Arg_context (context_of False (text_from (Some alice) ''!ping extra text''))]]
   \<and> trace (snd (handle_event noon
                   (console_on_text_message (on_text_message sample_bot text_handler)
                      console_handler)
                   ''text_message'' (text_from (Some alice) ''hello'')))
   = [Call text_handler [Arg_context (context_of False (text_from (Some alice) ''hello''))],
      Call console_handler [Arg_context (context_of False (text_from (Some alice) ''hello''))],
      Call text_handler [Arg_context (context_of False (text_from (Some alice) ''hello''))]]"
  by (simp add: sample_defs text_handler_def console_handler_def on_text_message_def
      console_on_text_message_def dispatcher_defs router_defs resolver_defs Let_def)

subsection \<open>Registering an error handler does not change a dispatch\<close>

text \<open>The one place that calls a handler registered under \<open>error\<close> by that name.\<close>

lemma emit_error:
  "events w ''error'' = Some h \<Longrightarrow> emit w ''error'' args = invoke h args w"
  by (simp add: emit_def)















subsection \<open>An exception raised by a handler ends the dispatch\<close>




















subsection \<open>The reply-wait primitive\<close>

text \<open>
  C8. A call of \<open>wait_for_message\<close> on a context whose flag \<open>intents\<close> is off raises
  \<open>IntentsNotEnabled\<close> at once: whatever the observations are, none is taken, the cache
  is left as it was and no read of it is made.
\<close>

theorem wait_for_message_needs_intents:
  "\<not> intents context \<Longrightarrow>
   wait_for_message context expected timeout cache0 start observations
   = Some \<lparr>returned = Inl IntentsNotEnabled, cache_after = cache0, reads = 0\<rparr>"
  by (simp add: wait_for_message_def)

theorem wait_for_message_needs_intents_witness:
  "\<not> intents (context_of False (text_from (Some alice) ''hello''))
   \<and> wait_for_message (context_of False (text_from (Some alice) ''hello'')) ''$verify'' 10
        [''chat1_userA'' \<mapsto> (''$verify'', 150)] 100
        [(100, [''chat1_userA'' \<mapsto> (''$verify'', 150)])]
     = Some \<lparr>returned = Inl IntentsNotEnabled,
             cache_after = [''chat1_userA'' \<mapsto> (''$verify'', 150)], reads = 0\<rparr>"
  using wait_for_message_needs_intents
    [of "context_of False (text_from (Some alice) ''hello'')" "''$verify''" 10
      "[''chat1_userA'' \<mapsto> (''$verify'', 150)]" 100
      "[(100, [''chat1_userA'' \<mapsto> (''$verify'', 150)])]"]
  by (simp add: sample_defs)

lemma Cache_get_clear: "Cache_get (Cache_clear cache retry) key now = None"
  by (simp add: Cache_get_def Cache_clear_def)

text \<open>
  The loop returns as soon as the clock passes the deadline, and before that at the first
  poll that finds a value under the key.
\<close>

lemma wait_loop_outcomes:
  assumes "author (message context) = Some a"
    and "key = cache_key (chatId (message context)) (userId a)"
    and "\<exists>(now, cache) \<in> set observations. \<not> now - start < timeout"
  shows "\<exists>before now cache after.
      observations = before @ (now, cache) # after
    \<and> (\<forall>(t, c) \<in> set before. t - start < timeout \<and> Cache_get c key t = None)
    \<and> (if now - start < timeout then
         (\<exists>v. Cache_get cache key now = Some v
            \<and> wait_loop context expected timeout start n observations
              = Some \<lparr>returned = Inr (if v = expected then Some (message context) else None),
                      cache_after = Cache_clear cache key,
                      reads = n + length before + 1\<rparr>)
       else wait_loop context expected timeout start n observations
              = Some \<lparr>returned = Inr None, cache_after = Cache_clear cache key,
                      reads = n + length before\<rparr>)"
  using assms(3)
proof (induction observations arbitrary: n)
  case Nil
  then show ?case by simp
next
  case (Cons observation rest)
  obtain now cache where observation: "observation = (now, cache)"
    by (cases observation)
  show ?case
  proof (cases "now - start < timeout \<and> Cache_get cache key now = None")
    case False
    then have "if now - start < timeout then
         (\<exists>v. Cache_get cache key now = Some v
            \<and> wait_loop context expected timeout start n (observation # rest)
              = Some \<lparr>returned = Inr (if v = expected then Some (message context) else None),
                      cache_after = Cache_clear cache key,
                      reads = n + length ([] :: (real \<times> Cache) list) + 1\<rparr>)
       else wait_loop context expected timeout start n (observation # rest)
              = Some \<lparr>returned = Inr None, cache_after = Cache_clear cache key,
                      reads = n + length ([] :: (real \<times> Cache) list)\<rparr>"
      using assms(1,2) observation by (auto simp: Let_def)
    then show ?thesis
      using observation by (intro exI [of _ "[]"] exI [of _ now] exI [of _ cache] exI [of _ rest]) simp
  next
    case True
    with Cons.prems observation have "\<exists>(now, cache) \<in> set rest. \<not> now - start < timeout"
      by auto
    from Cons.IH [OF this, of "Suc n"] obtain before now' cache' after where
      split: "rest = before @ (now', cache') # after"
      and quiet: "\<forall>(t, c) \<in> set before. t - start < timeout \<and> Cache_get c key t = None"
      and result: "if now' - start < timeout then
         (\<exists>v. Cache_get cache' key now' = Some v
            \<and> wait_loop context expected timeout start (Suc n) rest
              = Some \<lparr>returned = Inr (if v = expected then Some (message context) else None),
                      cache_after = Cache_clear cache' key,
                      reads = Suc n + length before + 1\<rparr>)
       else wait_loop context expected timeout start (Suc n) rest
              = Some \<lparr>returned = Inr None, cache_after = Cache_clear cache' key,
                      reads = Suc n + length before\<rparr>"
      by blast
    have step: "wait_loop context expected timeout start n (observation # rest)
        = wait_loop context expected timeout start (Suc n) rest"
      using True assms(1,2) observation by (simp add: Let_def)
    show ?thesis
      using split quiet result True observation step
      by (intro exI [of _ "(now, cache) # before"] exI [of _ now'] exI [of _ cache']
          exI [of _ after]) (auto split: if_splits)
  qed
qed

text \<open>
  The return values of \<open>wait_for_message\<close> with the flag on, for a message that has an
  author, when the clock passes the deadline at some evaluation of the loop condition.
  The call returns, and exactly one of three cases holds at the observation that ends
  it, every poll before it having found nothing under the key of (chatId, userId): the
  poll is made before the deadline and finds the expected string, and the call returns
  the triggering message; it is made before the deadline and finds another string, and
  the call returns null; or the deadline has passed, and the call returns null. In each
  case no entry is stored under the key afterwards.
\<close>

lemma wait_for_message_outcomes:
  assumes "intents context"
    and "author (message context) = Some a"
    and "key = cache_key (chatId (message context)) (userId a)"
    and "\<exists>(now, cache) \<in> set observations. \<not> now - start < timeout"
  shows "\<exists>before now cache after r.
      observations = before @ (now, cache) # after
    \<and> (\<forall>(t, c) \<in> set before. t - start < timeout \<and> Cache_get c key t = None)
    \<and> wait_for_message context expected timeout cache0 start observations = Some r
    \<and> (\<forall>t. Cache_get (cache_after r) key t = None)
    \<and> (now - start < timeout \<and> Cache_get cache key now = Some expected
          \<and> returned r = Inr (Some (message context))
        \<or> now - start < timeout \<and> (\<exists>v. Cache_get cache key now = Some v \<and> v \<noteq> expected)
          \<and> returned r = Inr None
        \<or> \<not> now - start < timeout \<and> returned r = Inr None)"
proof -
  from wait_loop_outcomes [OF assms(2-4), of expected 0]
  obtain before now cache after where
    split: "observations = before @ (now, cache) # after"
    and quiet: "\<forall>(t, c) \<in> set before. t - start < timeout \<and> Cache_get c key t = None"
    and result: "if now - start < timeout then
         (\<exists>v. Cache_get cache key now = Some v
            \<and> wait_loop context expected timeout start 0 observations
              = Some \<lparr>returned = Inr (if v = expected then Some (message context) else None),
                      cache_after = Cache_clear cache key,
                      reads = 0 + length before + 1\<rparr>)
       else wait_loop context expected timeout start 0 observations
              = Some \<lparr>returned = Inr None, cache_after = Cache_clear cache key,
                      reads = 0 + length before\<rparr>"
    by blast
  from result assms(1) obtain r where
    r: "wait_for_message context expected timeout cache0 start observations = Some r"
    and cleared: "cache_after r = Cache_clear cache key"
    and outcome: "now - start < timeout \<and> Cache_get cache key now = Some expected
          \<and> returned r = Inr (Some (message context))
        \<or> now - start < timeout \<and> (\<exists>v. Cache_get cache key now = Some v \<and> v \<noteq> expected)
          \<and> returned r = Inr None
        \<or> \<not> now - start < timeout \<and> returned r = Inr None"
    by (auto simp: wait_for_message_def split: if_splits)
  from cleared have "\<forall>t. Cache_get (cache_after r) key t = None"
    by (simp add: Cache_get_clear)
  with split quiet r outcome show ?thesis
    by blast
qed

lemma wait_for_message_outcomes_example:
  "intents (context_of True (text_from (Some alice) ''hello''))
   \<and> wait_for_message (context_of True (text_from (Some alice) ''hello'')) ''$verify'' 2
        Map.empty 100
        [(100, Map.empty), (101, [''chat1_userA'' \<mapsto> (''$verify'', 191)]),
         (102, [''chat1_userA'' \<mapsto> (''$verify'', 191)])]
     = Some \<lparr>returned = Inr (Some (text_from (Some alice) ''hello'')),
             cache_after = Map.empty, reads = 2\<rparr>
   \<and> wait_for_message (context_of True (text_from (Some alice) ''hello'')) ''$verify'' 2
        Map.empty 100
        [(100, Map.empty), (101, [''chat1_userA'' \<mapsto> (''no'', 191)]),
         (102, [''chat1_userA'' \<mapsto> (''no'', 191)])]
     = Some \<lparr>returned = Inr None, cache_after = Map.empty, reads = 2\<rparr>
   \<and> wait_for_message (context_of True (text_from (Some alice) ''hello'')) ''$verify'' 2
        Map.empty 100
        [(100, Map.empty), (101, Map.empty), (102, Map.empty)]
     = Some \<lparr>returned = Inr None, cache_after = Map.empty, reads = 2\<rparr>"
proof -
  let ?ctx = "context_of True (text_from (Some alice) ''hello'')"
  let ?found = "[(100, Map.empty), (101, [''chat1_userA'' \<mapsto> (''$verify'', 191 :: real)]),
                 (102, [''chat1_userA'' \<mapsto> (''$verify'', 191)])]"
  have flag: "intents ?ctx"
    by (simp add: context_of_def)
  have sender: "author (message ?ctx) = Some alice"
    by (simp add: context_of_def text_from_def)
  have key: "''chat1_userA'' = cache_key (chatId (message ?ctx)) (userId alice)"
    by (simp add: sample_defs cache_key_def)
  have progress: "\<exists>(now, cache) \<in> set ?found. \<not> now - 100 < (2 :: real)"
    by simp
  from wait_for_message_outcomes [OF flag sender key progress, of "''$verify''" Map.empty]
  obtain r where "wait_for_message ?ctx ''$verify'' 2 Map.empty 100 ?found = Some r"
    by blast
  then show ?thesis using flag
    by (auto simp add: sample_defs wait_for_message_def cache_defs Let_def numeral_2_eq_2)
qed

text \<open>
  C3. Of the three outcomes of \<open>wait_for_message\<close>, the one where no value is recorded
  before the timeout is to return null and clear the entry, clearing an absent entry
  being a no-op. For \<open>userA\<close> in \<open>chat1\<close>, with nothing stored under that key and the
  unexpired entry of \<open>userB\<close> in \<open>chat2\<close> in the cache, the call returns null after two
  polls, and the clear on its way out empties the cache: the entry of \<open>userB\<close> is gone.
\<close>

theorem timeout_clear_is_not_a_noop:
  "Cache_get [''chat2_userB'' \<mapsto> (''hello'', 150)] ''chat1_userA'' 102 = None
   \<and> Cache_get [''chat2_userB'' \<mapsto> (''hello'', 150)] ''chat2_userB'' 102 = Some ''hello''
   \<and> wait_for_message (context_of True (text_from (Some alice) ''hello'')) ''$verify'' 2
        [''chat2_userB'' \<mapsto> (''hello'', 150)] 100
        [(100, [''chat2_userB'' \<mapsto> (''hello'', 150)]),
         (101, [''chat2_userB'' \<mapsto> (''hello'', 150)]),
         (102, [''chat2_userB'' \<mapsto> (''hello'', 150)])]
     = Some \<lparr>returned = Inr None, cache_after = Map.empty, reads = 2\<rparr>"
  by (simp add: sample_defs wait_for_message_def cache_defs Let_def numeral_2_eq_2)

text \<open>
  C5. Recording a value and every exit of \<open>wait_for_message\<close> are to touch the entry of
  their own key only. \<open>Cache.clear\<close> removes every item: recording a second message of
  \<open>userA\<close> in \<open>chat1\<close> removes the unexpired entry of \<open>userB\<close> in \<open>chat2\<close>, and so does
  a call of \<open>wait_for_message\<close> for \<open>userA\<close> in \<open>chat1\<close> that times out.
\<close>

theorem cache_clear_removes_other_keys:
  "wait_for (add_cache noon
      (sample_bot\<lparr>wait_for :=
         [''chat1_userA'' \<mapsto> (''first'', 150), ''chat2_userB'' \<mapsto> (''hello'', 150)]\<rparr>)
      ''chat1'' ''userA'' ''second'') ''chat2_userB'' = None
   \<and> map_option (\<lambda>r. cache_after r ''chat2_userB'')
        (wait_for_message (context_of True (text_from (Some alice) ''hi'')) ''$verify'' 10
          [''chat2_userB'' \<mapsto> (''hello'', 150)] 100
          [(100, [''chat2_userB'' \<mapsto> (''hello'', 150)]),
           (111, [''chat2_userB'' \<mapsto> (''hello'', 150)])])
      = Some None"
  by (simp add: sample_defs add_cache_def cache_defs wait_for_message_def Let_def)

end
